theory Spec2Isabelle
  imports Complex_Main
begin

section \<open>Registration dialog (RegisterMember)\<close>

text \<open>
  The component keeps the form values (held by the form library), the top-level
  \<open>formError\<close> and talks to three collaborators: the identity service
  (\<open>createUserWithEmailAndPassword\<close>), the document store (\<open>addDoc\<close>) and the toast
  library. Every call to a collaborator is recorded, in order, in the \<open>events\<close> of the
  dialog, so that "was never issued" and "fires exactly once" are statements about that
  list. The answers of the collaborators are inputs of the model (\<open>services\<close>): the
  theorems hold for every answer.

  Strings are byte strings; the validation rules below agree with the JavaScript ones on
  ASCII input (the whitespace class of the email pattern and the length of the password
  are those of ASCII text).
\<close>

record MemberFormData =
  name :: string
  email :: string
  password :: string
  membership :: string
  status :: string
  statusColor :: string

definition defaultValues :: MemberFormData where
  "defaultValues =
     \<lparr>name = '''', email = '''', password = '''', membership = ''Subadmin'',
      status = ''Active'', statusColor = ''text-green-500''\<rparr>"

text \<open>A thrown JavaScript error, as far as the code reads it: \<open>error.code\<close> and
  \<open>error.message\<close>, either of which may be absent.\<close>

record js_error =
  err_code :: "string option"
  err_message :: "string option"

datatype reg_event =
    CreateUser string string
  | AddMember MemberFormData string
  | AddNotification string
  | ToastSuccess string
  | ToastError string
  | OnClose

record services =
  createUser_result :: "js_error + string"
  addMember_result :: "js_error + unit"
  addNotification_result :: "js_error + unit"

record dialog =
  form :: MemberFormData
  errors :: "(string \<times> string) list"
  formError :: "string option"
  events :: "reg_event list"

definition emit :: "reg_event \<Rightarrow> dialog \<Rightarrow> dialog" where
  "emit e s = s\<lparr>events := events s @ [e]\<rparr>"

text \<open>\<open>reset()\<close> of the form library: the values return to \<open>defaultValues\<close> and the
  field errors are cleared.\<close>

definition reset :: "dialog \<Rightarrow> dialog" where
  "reset s = s\<lparr>form := defaultValues, errors := []\<rparr>"

text \<open>\<open>error.message || "Failed to register member."\<close>: an absent or empty message is
  falsy.\<close>

definition message_or_default :: "js_error \<Rightarrow> string" where
  "message_or_default e =
     (case err_message e of
        None \<Rightarrow> ''Failed to register member.''
      | Some m \<Rightarrow> if m = [] then ''Failed to register member.'' else m)"

definition errorMessage :: "js_error \<Rightarrow> string" where
  "errorMessage e =
     (if err_code e = Some ''auth/email-already-in-use'' then ''Email already in use.''
      else if err_code e = Some ''auth/invalid-email'' then ''Invalid email format.''
      else if err_code e = Some ''auth/weak-password''
        then ''Password must be at least 6 characters.''
      else if err_code e = Some ''permission-denied''
        then ''Permission denied: Unable to save data.''
      else if err_code e = Some ''unavailable'' then ''Firestore service is unavailable.''
      else message_or_default e)"

text \<open>The \<open>catch\<close> block of \<open>onSubmit\<close>.\<close>

definition catch_block :: "js_error \<Rightarrow> dialog \<Rightarrow> dialog" where
  "catch_block e s = emit (ToastError (errorMessage e)) (s\<lparr>formError := Some (errorMessage e)\<rparr>)"

definition onSubmit :: "services \<Rightarrow> MemberFormData \<Rightarrow> dialog \<Rightarrow> dialog" where
  "onSubmit env data s0 =
     (let s1 = emit (CreateUser (email data) (password data)) (s0\<lparr>formError := None\<rparr>) in
      case createUser_result env of
        Inl e \<Rightarrow> catch_block e s1
      | Inr uid \<Rightarrow>
          (let s2 = emit (AddMember data uid) s1 in
           case addMember_result env of
             Inl e \<Rightarrow> catch_block e s2
           | Inr _ \<Rightarrow>
               (let s3 = emit (AddNotification (''New member registered: '' @ name data)) s2 in
                case addNotification_result env of
                  Inl e \<Rightarrow> catch_block e s3
                | Inr _ \<Rightarrow>
                    emit OnClose
                      (reset (emit (ToastSuccess ''Member registered successfully!'') s3)))))"

subsection \<open>Field validation of the form library\<close>

text \<open>
  The rules are the ones the component registers: \<open>required\<close> on every field, the
  pattern \<^verbatim>\<open>/^\S+@\S+\.\S+$/\<close> on email, \<open>minLength 6\<close> on password. The form
  library's \<open>handleSubmit\<close> runs them on the current values and calls \<open>onSubmit\<close> only
  when no field has an error; per field it reports the first failing rule, \<open>required\<close>
  first (a value fails \<open>required\<close> when it is the empty string).
\<close>

definition nonspace :: "char \<Rightarrow> bool" where
  "nonspace c = (c \<notin> set [CHR '' '', CHR 0x09, CHR 0x0A, CHR 0x0B, CHR 0x0C, CHR 0x0D])"

text \<open>\<^verbatim>\<open>\S+$\<close>\<close>

definition nonspaces1 :: "string \<Rightarrow> bool" where
  "nonspaces1 s = (s \<noteq> [] \<and> list_all nonspace s)"

text \<open>\<^verbatim>\<open>\S+\.\S+$\<close>: some dot splits the text into two runs of non-space.\<close>

definition domain_pattern :: "string \<Rightarrow> bool" where
  "domain_pattern s =
     list_ex (\<lambda>j. s ! j = CHR ''.'' \<and> nonspaces1 (take j s) \<and> nonspaces1 (drop (Suc j) s))
       [0..<length s]"

text \<open>\<^verbatim>\<open>^\S+@\S+\.\S+$\<close>\<close>

definition email_pattern :: "string \<Rightarrow> bool" where
  "email_pattern s =
     list_ex (\<lambda>i. s ! i = CHR ''@'' \<and> nonspaces1 (take i s) \<and> domain_pattern (drop (Suc i) s))
       [0..<length s]"

definition validate_name :: "MemberFormData \<Rightarrow> string option" where
  "validate_name d = (if name d = [] then Some ''Name is required'' else None)"

definition validate_email :: "MemberFormData \<Rightarrow> string option" where
  "validate_email d =
     (if email d = [] then Some ''Email is required''
      else if \<not> email_pattern (email d) then Some ''Invalid email format''
      else None)"

definition validate_password :: "MemberFormData \<Rightarrow> string option" where
  "validate_password d =
     (if password d = [] then Some ''Password is required''
      else if length (password d) < 6 then Some ''Password must be at least 6 characters''
      else None)"

definition validate_membership :: "MemberFormData \<Rightarrow> string option" where
  "validate_membership d =
     (if membership d = [] then Some ''Membership type is required'' else None)"

definition field_error :: "string \<Rightarrow> string option \<Rightarrow> (string \<times> string) list" where
  "field_error f r = (case r of None \<Rightarrow> [] | Some m \<Rightarrow> [(f, m)])"

definition validate :: "MemberFormData \<Rightarrow> (string \<times> string) list" where
  "validate d =
     field_error ''name'' (validate_name d) @ field_error ''email'' (validate_email d) @
     field_error ''password'' (validate_password d) @
     field_error ''membership'' (validate_membership d)"

text \<open>\<open>handleSubmit(onSubmit)\<close>, the handler of the form's submit event.\<close>

definition handleSubmit :: "services \<Rightarrow> dialog \<Rightarrow> dialog" where
  "handleSubmit env s =
     (if validate (form s) = [] then onSubmit env (form s) (s\<lparr>errors := []\<rparr>)
      else s\<lparr>errors := validate (form s)\<rparr>)"

definition is_external_call :: "reg_event \<Rightarrow> bool" where
  "is_external_call e =
     (case e of CreateUser _ _ \<Rightarrow> True | AddMember _ _ \<Rightarrow> True | AddNotification _ \<Rightarrow> True
      | _ \<Rightarrow> False)"

definition is_store_write :: "reg_event \<Rightarrow> bool" where
  "is_store_write e =
     (case e of AddMember _ _ \<Rightarrow> True | AddNotification _ \<Rightarrow> True | _ \<Rightarrow> False)"

text \<open>Concrete inputs used to exercise the theorems.\<close>

definition alice :: MemberFormData where
  "alice = \<lparr>name = ''Alice'', email = ''alice@example.com'', password = ''secret1'',
            membership = ''Basic'', status = ''Active'', statusColor = ''text-green-500''\<rparr>"

definition open_dialog :: "MemberFormData \<Rightarrow> dialog" where
  "open_dialog d = \<lparr>form = d, errors = [], formError = None, events = []\<rparr>"

definition duplicate_email :: js_error where
  "duplicate_email =
     \<lparr>err_code = Some ''auth/email-already-in-use'',
      err_message = Some ''Firebase: Error (auth/email-already-in-use).''\<rparr>"

definition all_ok :: services where
  "all_ok = \<lparr>createUser_result = Inr ''uid-1'', addMember_result = Inr (),
             addNotification_result = Inr ()\<rparr>"

section \<open>Video gallery and player (VideoFetch)\<close>

text \<open>
  A fetched video as the component holds it: the document id, the stored fields the
  component reads, and the two display fields drawn at random per fetch (\<open>views\<close>,
  \<open>duration\<close>), which are inputs of the model. \<open>category\<close> is \<open>None\<close> when
  the stored document has no such field.
\<close>

record video =
  vid :: string
  category :: "string option"
  videoUrl :: string
  views :: string
  duration :: string

text \<open>Which of the three fullscreen entry points an object offers; the code tries them
  in this order and does nothing when none is there.\<close>

datatype fs_api = StandardApi | WebkitApi | MsApi | NoApi

text \<open>The native media element behind \<open>videoRefs.current[id]\<close>: the properties the
  handlers assign, and the fullscreen entry point the element offers.\<close>

record media_element =
  currentTime :: real
  el_muted :: bool
  el_volume :: real
  requestApi :: fs_api

text \<open>Calls that leave the component, in the order they are made: the two callbacks of
  the parent, the collection read, the console, and the methods of the browser.\<close>

datatype effect =
    SetLoading bool
  | SetWorkouts "string \<Rightarrow> video list option"
  | GetDocs
  | ConsoleError string
  | Play string
  | Pause string
  | RequestFullscreen string fs_api
  | ExitFullscreen fs_api

record fs_video =
  fs_id :: string
  fs_category :: string

text \<open>
  The component state (one field per \<open>useState\<close>), the element table \<open>videoRefs\<close>,
  and the part of the browser the handlers read: \<open>document.fullscreenElement\<close> (the id
  of the video whose element is fullscreen, if any) and the exit entry point of
  \<open>document\<close>. No handler writes \<open>fullscreenElement\<close>: a fullscreen request is
  answered by the browser later, and reported through the fullscreen-change event.

  The per-video tables are keyed by the fetched ids, and an id is written (at the fetch)
  before it is read, so they are maps. Calling \<open>play()\<close> is recorded as the call; whether
  the browser then plays (its autoplay policy may refuse) is not part of the state.
\<close>

record gallery =
  videos :: "string \<Rightarrow> video list option"
  playing :: "string \<Rightarrow> bool option"
  volume :: "string \<Rightarrow> real option"
  muted :: "string \<Rightarrow> bool option"
  progress :: "string \<Rightarrow> real option"
  videoLoaded :: "string \<Rightarrow> bool option"
  currentFullScreenVideo :: "fs_video option"
  currentCategory :: "string option"
  isFullScreen :: bool
  isSmallScreen :: bool
  videoRefs :: "string \<Rightarrow> media_element option"
  fullscreenElement :: "string option"
  exitApi :: fs_api
  effects :: "effect list"

definition initial_gallery :: gallery where
  "initial_gallery =
     \<lparr>videos = Map.empty, playing = Map.empty, volume = Map.empty, muted = Map.empty,
      progress = Map.empty, videoLoaded = Map.empty, currentFullScreenVideo = None,
      currentCategory = None, isFullScreen = False, isSmallScreen = False,
      videoRefs = Map.empty, fullscreenElement = None, exitApi = StandardApi, effects = []\<rparr>"

definition perform :: "effect \<Rightarrow> gallery \<Rightarrow> gallery" where
  "perform e s = s\<lparr>effects := effects s @ [e]\<rparr>"

definition TypeError :: "string \<Rightarrow> js_error" where
  "TypeError m = \<lparr>err_code = None, err_message = Some m\<rparr>"

text \<open>A handler either returns or throws; the state updates made before the throw
  stay.\<close>

datatype 'a outcome = Returned 'a | Threw js_error 'a

fun state_of :: "'a outcome \<Rightarrow> 'a" where
  "state_of (Returned s) = s"
| "state_of (Threw e s) = s"

fun has_returned :: "'a outcome \<Rightarrow> bool" where
  "has_returned (Returned s) = True"
| "has_returned (Threw e s) = False"

subsection \<open>Fetching and grouping\<close>

text \<open>\<open>video.category || 'uncategorized'\<close>: an absent or empty category is falsy.\<close>

definition category_or_default :: "video \<Rightarrow> string" where
  "category_or_default v =
     (case category v of
        None \<Rightarrow> ''uncategorized''
      | Some c \<Rightarrow> if c = [] then ''uncategorized'' else c)"

text \<open>
  The accumulator of the grouping is an object literal \<open>{}\<close>, so besides its own
  properties (the map \<open>acc\<close> below) a lookup \<open>acc[category]\<close> also finds what every
  object inherits from \<open>Object.prototype\<close>. Those inherited values are functions (or,
  for \<open>__proto__\<close>, the prototype object): truthy, and without a \<open>push\<close> method.
\<close>

definition objectPrototypeKeys :: "string list" where
  "objectPrototypeKeys =
     [''constructor'', ''__proto__'', ''hasOwnProperty'', ''isPrototypeOf'',
      ''propertyIsEnumerable'', ''toLocaleString'', ''toString'', ''valueOf'',
      ''__defineGetter__'', ''__defineSetter__'', ''__lookupGetter__'', ''__lookupSetter__'']"

text \<open>
  \<open>fetchedVideos.reduce((acc, video) => ..., {})\<close>: an own group is appended to; a
  name with no own group gets a new group, unless the lookup finds an inherited value,
  in which case no group is created and \<open>acc[category].push\<close> is not a function.
\<close>

fun group_reduce ::
  "(string \<Rightarrow> video list option) \<Rightarrow> video list \<Rightarrow> js_error + (string \<Rightarrow> video list option)"
where
  "group_reduce acc [] = Inr acc"
| "group_reduce acc (v # rest) =
     (case acc (category_or_default v) of
        Some grp \<Rightarrow> group_reduce (acc(category_or_default v \<mapsto> grp @ [v])) rest
      | None \<Rightarrow>
          if category_or_default v \<in> set objectPrototypeKeys
          then Inl (TypeError ''acc[category].push is not a function'')
          else group_reduce (acc(category_or_default v \<mapsto> [v])) rest)"

definition groupVideos :: "video list \<Rightarrow> js_error + (string \<Rightarrow> video list option)" where
  "groupVideos fetchedVideos = group_reduce Map.empty fetchedVideos"

text \<open>The second \<open>reduce\<close>: the default playback state of every fetched id.\<close>

definition initialState :: "'a \<Rightarrow> video list \<Rightarrow> (string \<Rightarrow> 'a option)" where
  "initialState d fetchedVideos = fold (\<lambda>v m. m(vid v \<mapsto> d)) fetchedVideos Map.empty"

definition store_fetched :: "(string \<Rightarrow> video list option) \<Rightarrow> video list \<Rightarrow> gallery \<Rightarrow> gallery" where
  "store_fetched groupedVideos fetchedVideos s =
     (perform (SetWorkouts groupedVideos) (s\<lparr>videos := groupedVideos\<rparr>))
       \<lparr>playing := initialState False fetchedVideos,
        volume := initialState (7 / 10) fetchedVideos,
        muted := initialState True fetchedVideos,
        progress := initialState 0 fetchedVideos,
        videoLoaded := initialState False fetchedVideos\<rparr>"

text \<open>
  \<open>fetchVideos\<close>, run by the mount effect. Its input is the answer of the collection
  read: an error, or the documents already mapped to videos.
\<close>

definition fetchVideos :: "js_error + video list \<Rightarrow> gallery \<Rightarrow> gallery" where
  "fetchVideos getDocs_result s =
     (let s1 = perform GetDocs (perform (SetLoading True) s);
          s2 = (case getDocs_result of
                  Inl e \<Rightarrow> perform (ConsoleError ''Error fetching videos:'') s1
                | Inr fetchedVideos \<Rightarrow>
                    (case groupVideos fetchedVideos of
                       Inl e \<Rightarrow> perform (ConsoleError ''Error fetching videos:'') s1
                     | Inr groupedVideos \<Rightarrow> store_fetched groupedVideos fetchedVideos s1))
      in perform (SetLoading False) s2)"

subsection \<open>Playback handlers\<close>

text \<open>\<open>prev[videoId]\<close> read as a condition: a missing entry is falsy.\<close>

definition truthy :: "bool option \<Rightarrow> bool" where
  "truthy b = (case b of None \<Rightarrow> False | Some x \<Rightarrow> x)"

definition handleVideoLoaded :: "string \<Rightarrow> gallery \<Rightarrow> gallery" where
  "handleVideoLoaded videoId s = s\<lparr>videoLoaded := (videoLoaded s)(videoId \<mapsto> True)\<rparr>"

definition handlePlayPause :: "string \<Rightarrow> gallery \<Rightarrow> gallery" where
  "handlePlayPause videoId s =
     (case videoRefs s videoId of
        None \<Rightarrow> s
      | Some el \<Rightarrow>
          (perform (if truthy (playing s videoId) then Pause videoId else Play videoId) s)
            \<lparr>playing := (playing s)(videoId \<mapsto> \<not> truthy (playing s videoId))\<rparr>)"

definition handleMuteToggle :: "string \<Rightarrow> gallery \<Rightarrow> gallery" where
  "handleMuteToggle videoId s =
     (case videoRefs s videoId of
        None \<Rightarrow> s
      | Some el \<Rightarrow>
          s\<lparr>videoRefs := (videoRefs s)(videoId \<mapsto> el\<lparr>el_muted := \<not> truthy (muted s videoId)\<rparr>),
            muted := (muted s)(videoId \<mapsto> \<not> truthy (muted s videoId))\<rparr>)"

text \<open>\<open>handleVolumeChange\<close>, with the number \<open>parseFloat(value)\<close> as its argument
  (the slider that calls it ranges over \<open>0\<close> to \<open>1\<close>).\<close>

definition handleVolumeChange :: "string \<Rightarrow> real \<Rightarrow> gallery \<Rightarrow> gallery" where
  "handleVolumeChange videoId volumeValue s =
     (case videoRefs s videoId of
        None \<Rightarrow> s
      | Some el \<Rightarrow>
          (if volumeValue > 0
           then s\<lparr>videoRefs := (videoRefs s)(videoId \<mapsto> el\<lparr>el_volume := volumeValue, el_muted := False\<rparr>),
                  muted := (muted s)(videoId \<mapsto> False),
                  volume := (volume s)(videoId \<mapsto> volumeValue)\<rparr>
           else s\<lparr>videoRefs := (videoRefs s)(videoId \<mapsto> el\<lparr>el_volume := volumeValue\<rparr>),
                  volume := (volume s)(videoId \<mapsto> volumeValue)\<rparr>))"

text \<open>What the volume control renders for a video: the crossed-out icon when
  \<open>muted[id] || volume[id] === 0\<close>, and the slider when \<open>!muted[id]\<close>.\<close>

definition mutedIndicator :: "gallery \<Rightarrow> string \<Rightarrow> bool" where
  "mutedIndicator s videoId = (truthy (muted s videoId) \<or> volume s videoId = Some 0)"

definition sliderShown :: "gallery \<Rightarrow> string \<Rightarrow> bool" where
  "sliderShown s videoId = (\<not> truthy (muted s videoId))"

text \<open>The displayed state of the volume control of a video: which icon, and whether
  the slider is there.\<close>

definition displayed_control :: "gallery \<Rightarrow> string \<Rightarrow> bool \<times> bool" where
  "displayed_control s videoId = (mutedIndicator s videoId, sliderShown s videoId)"

subsection \<open>Fullscreen session\<close>

definition clear_session :: "gallery \<Rightarrow> gallery" where
  "clear_session s =
     s\<lparr>currentFullScreenVideo := None, currentCategory := None,
       isFullScreen := False, isSmallScreen := False\<rparr>"

definition handleFullScreen :: "string \<Rightarrow> string \<Rightarrow> gallery \<Rightarrow> gallery" where
  "handleFullScreen videoId cat s =
     (case videoRefs s videoId of
        None \<Rightarrow> s
      | Some videoElement \<Rightarrow>
          (let s1 = s\<lparr>currentFullScreenVideo := Some \<lparr>fs_id = videoId, fs_category = cat\<rparr>,
                      currentCategory := Some cat, isFullScreen := True, isSmallScreen := False\<rparr>;
               s2 = (if requestApi videoElement = NoApi then s1
                     else perform (RequestFullscreen videoId (requestApi videoElement)) s1);
               s3 = s2\<lparr>playing := (playing s2)(videoId \<mapsto> True),
                       videoRefs := (videoRefs s2)(videoId \<mapsto> videoElement\<lparr>el_muted := False\<rparr>),
                       muted := (muted s2)(videoId \<mapsto> False)\<rparr>
           in perform (Play videoId) s3))"

definition handleExitFullScreen :: "gallery \<Rightarrow> gallery" where
  "handleExitFullScreen s =
     clear_session (if exitApi s = NoApi then s else perform (ExitFullscreen (exitApi s)) s)"

definition handleToggleSmallScreen :: "gallery \<Rightarrow> gallery" where
  "handleToggleSmallScreen s = s\<lparr>isSmallScreen := \<not> isSmallScreen s\<rparr>"

text \<open>The listener of the fullscreen-change events.\<close>

definition handleFullscreenChange :: "gallery \<Rightarrow> gallery" where
  "handleFullscreenChange s =
     (if fullscreenElement s = None \<and> currentFullScreenVideo s \<noteq> None then clear_session s
      else s)"

text \<open>The browser changes its fullscreen element on its own account (a granted request,
  the Escape key, a finished exit) and then dispatches the event.\<close>

definition browserFullscreenChange :: "string option \<Rightarrow> gallery \<Rightarrow> gallery" where
  "browserFullscreenChange el s = handleFullscreenChange (s\<lparr>fullscreenElement := el\<rparr>)"

text \<open>
  The overlay player, rendered while a session is active, is one video element
  for whichever video is active; its \<open>muted\<close> attribute is rendered as
  \<open>muted[currentFullScreenVideo.id]\<close>.
\<close>

definition overlay_muted_prop :: "gallery \<Rightarrow> bool option" where
  "overlay_muted_prop s = map_option (\<lambda>cur. truthy (muted s (fs_id cur))) (currentFullScreenVideo s)"

subsection \<open>Playlist navigation\<close>

text \<open>\<open>Array.prototype.findIndex\<close>: the first index whose element satisfies the
  predicate, \<open>-1\<close> when there is none.\<close>

fun findIndex :: "('a \<Rightarrow> bool) \<Rightarrow> 'a list \<Rightarrow> int" where
  "findIndex P [] = - 1"
| "findIndex P (x # xs) =
     (if P x then 0 else (if findIndex P xs = - 1 then - 1 else findIndex P xs + 1))"

text \<open>The remainder operator \<open>%\<close> on integers: the sign of the dividend, and \<open>NaN\<close>
  (here \<open>None\<close>) for a zero divisor.\<close>

definition js_rem :: "int \<Rightarrow> int \<Rightarrow> int option" where
  "js_rem a b = (if b = 0 then None else Some (sgn a * (\<bar>a\<bar> mod \<bar>b\<bar>)))"

text \<open>\<open>currentVideos[index]\<close>: \<open>undefined\<close> outside the array and for \<open>NaN\<close>.\<close>

definition array_at :: "'a list \<Rightarrow> int option \<Rightarrow> 'a option" where
  "array_at xs index =
     (case index of
        None \<Rightarrow> None
      | Some i \<Rightarrow> if 0 \<le> i \<and> i < int (length xs) then Some (xs ! nat i) else None)"

text \<open>
  The common body of \<open>handleNextVideo\<close> and \<open>handlePreviousVideo\<close> after the target
  has been picked: pause the outgoing element (a missing element throws), make the
  target the active video (an \<open>undefined\<close> target throws on \<open>.id\<close>), and, when the
  target has an element, rewind, unmute and play it.
\<close>

definition switch_video :: "fs_video \<Rightarrow> string \<Rightarrow> video option \<Rightarrow> gallery \<Rightarrow> gallery outcome" where
  "switch_video cur cat target s =
     (let s1 = s\<lparr>playing := (playing s)(fs_id cur \<mapsto> False)\<rparr> in
      case videoRefs s1 (fs_id cur) of
        None \<Rightarrow> Threw (TypeError ''Cannot read properties of undefined (reading pause)'') s1
      | Some outgoing \<Rightarrow>
          (let s2 = perform (Pause (fs_id cur)) s1 in
           case target of
             None \<Rightarrow> Threw (TypeError ''Cannot read properties of undefined (reading id)'') s2
           | Some nextVideo \<Rightarrow>
               (let s3 = s2\<lparr>currentFullScreenVideo :=
                              Some \<lparr>fs_id = vid nextVideo, fs_category = cat\<rparr>,
                            playing := (playing s2)(vid nextVideo \<mapsto> True)\<rparr> in
                case videoRefs s3 (vid nextVideo) of
                  None \<Rightarrow> Returned s3
                | Some nextVideoElement \<Rightarrow>
                    Returned
                      (perform (Play (vid nextVideo))
                         (s3\<lparr>videoRefs := (videoRefs s3)(vid nextVideo \<mapsto>
                                nextVideoElement\<lparr>currentTime := 0, el_muted := False\<rparr>)\<rparr>)))))"

definition handleNextVideo :: "gallery \<Rightarrow> gallery outcome" where
  "handleNextVideo s =
     (case currentFullScreenVideo s of
        None \<Rightarrow> Returned s
      | Some cur \<Rightarrow>
          (case currentCategory s of
             None \<Rightarrow> Returned s
           | Some cat \<Rightarrow>
               if cat = [] then Returned s
               else
                 (case videos s cat of
                    None \<Rightarrow>
                      Threw (TypeError ''Cannot read properties of undefined (reading findIndex)'') s
                  | Some currentVideos \<Rightarrow>
                      (let currentIndex = findIndex (\<lambda>v. vid v = fs_id cur) currentVideos;
                           nextIndex = js_rem (currentIndex + 1) (int (length currentVideos))
                       in switch_video cur cat (array_at currentVideos nextIndex) s))))"

definition handlePreviousVideo :: "gallery \<Rightarrow> gallery outcome" where
  "handlePreviousVideo s =
     (case currentFullScreenVideo s of
        None \<Rightarrow> Returned s
      | Some cur \<Rightarrow>
          (case currentCategory s of
             None \<Rightarrow> Returned s
           | Some cat \<Rightarrow>
               if cat = [] then Returned s
               else
                 (case videos s cat of
                    None \<Rightarrow>
                      Threw (TypeError ''Cannot read properties of undefined (reading findIndex)'') s
                  | Some currentVideos \<Rightarrow>
                      (let currentIndex = findIndex (\<lambda>v. vid v = fs_id cur) currentVideos;
                           prevIndex = js_rem (currentIndex - 1 + int (length currentVideos))
                                         (int (length currentVideos))
                       in switch_video cur cat (array_at currentVideos prevIndex) s))))"

subsection \<open>The component as a state machine\<close>

text \<open>
  Everything that can happen to the gallery: the fetch completes, a video element is
  attached to (or detached from) \<open>videoRefs\<close> by rendering, the user clicks a
  control, or the browser reports a fullscreen change. A step is the handler alone: its
  result is the state when the handler returns. What the following render shows is read
  off that state (\<open>mutedIndicator\<close>, \<open>sliderShown\<close>, \<open>overlay_muted_prop\<close>). The
  handlers of the card click, of the time updates and of the progress bar are left out;
  they write neither the session nor the \<open>muted\<close> and \<open>volume\<close> tables.
\<close>

datatype event =
    Fetched "js_error + video list"
  | RefAttached string "media_element option"
  | LoadedData string
  | ClickPlayPause string
  | ClickMute string
  | ChangeVolume string real
  | ClickFullScreen string string
  | ClickExitFullScreen
  | ClickToggleSmallScreen
  | ClickNext
  | ClickPrevious
  | FullscreenChange "string option"

fun step :: "event \<Rightarrow> gallery \<Rightarrow> gallery" where
  "step (Fetched r) s = fetchVideos r s"
| "step (RefAttached videoId el) s = s\<lparr>videoRefs := (videoRefs s)(videoId := el)\<rparr>"
| "step (LoadedData videoId) s = handleVideoLoaded videoId s"
| "step (ClickPlayPause videoId) s = handlePlayPause videoId s"
| "step (ClickMute videoId) s = handleMuteToggle videoId s"
| "step (ChangeVolume videoId x) s = handleVolumeChange videoId x s"
| "step (ClickFullScreen videoId cat) s = handleFullScreen videoId cat s"
| "step ClickExitFullScreen s = handleExitFullScreen s"
| "step ClickToggleSmallScreen s = handleToggleSmallScreen s"
| "step ClickNext s = state_of (handleNextVideo s)"
| "step ClickPrevious s = state_of (handlePreviousVideo s)"
| "step (FullscreenChange el) s = browserFullscreenChange el s"

fun is_enter :: "event \<Rightarrow> bool" where
  "is_enter (ClickFullScreen videoId cat) = True"
| "is_enter _ = False"

text \<open>The four fields that make up the fullscreen session.\<close>

definition session_fields :: "gallery \<Rightarrow> fs_video option \<times> string option \<times> bool \<times> bool" where
  "session_fields s = (currentFullScreenVideo s, currentCategory s, isFullScreen s, isSmallScreen s)"

text \<open>
  An active fullscreen session as the rendered component has it: the session names the
  video at position \<open>i\<close> of the playlist \<open>vs\<close> of the active category, the ids of
  the playlist are pairwise different (they are document ids), and every video of the
  playlist has its element attached.
\<close>

definition active_session :: "gallery \<Rightarrow> fs_video \<Rightarrow> video list \<Rightarrow> nat \<Rightarrow> bool" where
  "active_session s cur vs i =
     (currentFullScreenVideo s = Some cur \<and> currentCategory s = Some (fs_category cur) \<and>
      fs_category cur \<noteq> [] \<and> videos s (fs_category cur) = Some vs \<and>
      i < length vs \<and> vid (vs ! i) = fs_id cur \<and> distinct (map vid vs) \<and>
      list_all (\<lambda>v. videoRefs s (vid v) \<noteq> None) vs)"

subsection \<open>Concrete galleries\<close>

definition mk_video :: "string \<Rightarrow> string option \<Rightarrow> video" where
  "mk_video i c = \<lparr>vid = i, category = c, videoUrl = ''https://cdn.example/'' @ i,
                   views = ''1.5K'', duration = ''2:05''\<rparr>"

definition demo_videos :: "video list" where
  "demo_videos =
     [mk_video ''a'' (Some ''cardio''), mk_video ''b'' None, mk_video ''c'' (Some ''cardio''),
      mk_video ''d'' (Some ''yoga''), mk_video ''e'' (Some ''cardio'')]"

definition fresh_element :: "fs_api \<Rightarrow> media_element" where
  "fresh_element api = \<lparr>currentTime = 12, el_muted = True, el_volume = 1, requestApi = api\<rparr>"

definition attach_all :: "fs_api \<Rightarrow> video list \<Rightarrow> gallery \<Rightarrow> gallery" where
  "attach_all api vs s = fold (\<lambda>v. step (RefAttached (vid v) (Some (fresh_element api)))) vs s"

text \<open>The gallery after a successful fetch of \<open>demo_videos\<close> and the first render.\<close>

definition demo_gallery :: "fs_api \<Rightarrow> gallery" where
  "demo_gallery api = attach_all api demo_videos (step (Fetched (Inr demo_videos)) initial_gallery)"

text \<open>A session entered on the first video of the three-video playlist, and one on
  the only video of its category.\<close>

definition theater :: gallery where
  "theater = step (ClickFullScreen ''a'' ''cardio'') (demo_gallery StandardApi)"

definition yoga_theater :: gallery where
  "yoga_theater = step (ClickFullScreen ''d'' ''yoga'') (demo_gallery StandardApi)"

text \<open>The user unmutes a card and drags its volume slider to zero.\<close>

definition quiet :: gallery where
  "quiet = step (ChangeVolume ''c'' 0) (step (ClickMute ''c'') (demo_gallery StandardApi))"

definition demo_groups :: "string \<Rightarrow> video list option" where
  "demo_groups =
     [''cardio'' \<mapsto> [mk_video ''a'' (Some ''cardio''), mk_video ''c'' (Some ''cardio''),
                      mk_video ''e'' (Some ''cardio'')],
      ''uncategorized'' \<mapsto> [mk_video ''b'' None],
      ''yoga'' \<mapsto> [mk_video ''d'' (Some ''yoga'')]]"

text \<open>A fetched list in which one stored category is the name of a property every
  object inherits.\<close>

definition bad_videos :: "video list" where
  "bad_videos = [mk_video ''a'' (Some ''cardio''), mk_video ''x'' (Some ''constructor'')]"

definition store_unavailable :: js_error where
  "store_unavailable =
     \<lparr>err_code = Some ''unavailable'', err_message = Some ''The service is currently unavailable.''\<rparr>"

text \<open>
  What stable grouping means, relative to groups \<open>acc\<close> already built: the group of a
  name is the old group followed by the records of that name in list order, and a name
  gets a group only if it had one or some record carries it.
\<close>

definition merged :: "(string \<Rightarrow> video list option) \<Rightarrow> video list \<Rightarrow> string \<Rightarrow> video list option" where
  "merged acc vs c =
     (case acc c of
        None \<Rightarrow> (if filter (\<lambda>v. category_or_default v = c) vs = [] then None
                  else Some (filter (\<lambda>v. category_or_default v = c) vs))
      | Some grp \<Rightarrow> Some (grp @ filter (\<lambda>v. category_or_default v = c) vs))"

section \<open>Properties of the registration dialog\<close>

lemma events_emit: "events (emit e s) = events s @ [e]"
  by (simp add: emit_def)

lemma formError_emit: "formError (emit e s) = formError s"
  by (simp add: emit_def)

lemma form_emit: "form (emit e s) = form s"
  by (simp add: emit_def)

text \<open>
  Claim C1. When the identity-creation call is rejected with the code
  \<open>auth/email-already-in-use\<close>, the message shown (\<open>formError\<close>, and the error toast) is
  exactly "Email already in use.", and the only external call of the submission is the
  identity-creation call itself: neither the profile write nor the notification write is
  issued.
\<close>

theorem duplicate_email_message_and_no_store_write:
  assumes "createUser_result env = Inl e"
    and "err_code e = Some ''auth/email-already-in-use''"
  shows "formError (onSubmit env data s) = Some ''Email already in use.''
    \<and> events (onSubmit env data s) =
        events s @ [CreateUser (email data) (password data), ToastError ''Email already in use.'']
    \<and> filter is_store_write (events (onSubmit env data s)) = filter is_store_write (events s)"
  using assms
  by (simp add: onSubmit_def catch_block_def errorMessage_def emit_def is_store_write_def)

theorem duplicate_email_witness:
  "formError (onSubmit (all_ok\<lparr>createUser_result := Inl duplicate_email\<rparr>) alice (open_dialog alice))
     = Some ''Email already in use.''
   \<and> events (onSubmit (all_ok\<lparr>createUser_result := Inl duplicate_email\<rparr>) alice (open_dialog alice))
     = [CreateUser ''alice@example.com'' ''secret1'', ToastError ''Email already in use.'']"
  using duplicate_email_message_and_no_store_write
    [of "all_ok\<lparr>createUser_result := Inl duplicate_email\<rparr>" duplicate_email alice "open_dialog alice"]
  by (simp add: all_ok_def duplicate_email_def alice_def open_dialog_def)

text \<open>
  Claim C8. When the name, the email or the password field is empty, the submit handler
  stops at validation: field errors are reported, \<open>onSubmit\<close> is not run, and the list of
  collaborator calls is left as it was, so no identity creation, profile write or
  notification write is issued. The form values and the top-level error are untouched.
\<close>

theorem empty_field_blocks_submission:
  assumes "name (form s) = [] \<or> email (form s) = [] \<or> password (form s) = []"
  shows "handleSubmit env s = s\<lparr>errors := validate (form s)\<rparr>
    \<and> errors (handleSubmit env s) \<noteq> []
    \<and> events (handleSubmit env s) = events s
    \<and> filter is_external_call (events (handleSubmit env s)) = filter is_external_call (events s)"
proof -
  have invalid: "validate (form s) \<noteq> []"
    using assms
    by (auto simp: validate_def field_error_def validate_name_def validate_email_def
        validate_password_def)
  then show ?thesis
    by (simp add: handleSubmit_def)
qed

theorem empty_field_witness:
  "handleSubmit all_ok (open_dialog (alice\<lparr>password := []\<rparr>))
     = (open_dialog (alice\<lparr>password := []\<rparr>))\<lparr>errors := [(''password'', ''Password is required'')]\<rparr>
   \<and> events (handleSubmit all_ok (open_dialog (alice\<lparr>password := []\<rparr>))) = []"
proof -
  have email_ok: "email_pattern ''alice@example.com''"
    by (simp add: email_pattern_def domain_pattern_def nonspaces1_def nonspace_def upt_rec)
  have v: "validate (alice\<lparr>password := []\<rparr>) = [(''password'', ''Password is required'')]"
    using email_ok
    by (simp add: validate_def field_error_def validate_name_def validate_email_def
        validate_password_def validate_membership_def alice_def)
  show ?thesis
    using empty_field_blocks_submission [of "open_dialog (alice\<lparr>password := []\<rparr>)" all_ok] v
    by (simp add: open_dialog_def alice_def)
qed

text \<open>
  Claim C9. When identity creation succeeds and both store writes succeed, the
  submission issues exactly the three external calls in order, then the success toast
  once, resets the form to its default values (clearing the errors) and calls the close
  callback once; no error is shown.
\<close>

theorem full_success_resets_closes_and_toasts_once:
  assumes "createUser_result env = Inr uid"
    and "addMember_result env = Inr u1"
    and "addNotification_result env = Inr u2"
  shows "form (onSubmit env data s) = defaultValues
    \<and> errors (onSubmit env data s) = []
    \<and> formError (onSubmit env data s) = None
    \<and> events (onSubmit env data s) =
        events s @
        [CreateUser (email data) (password data), AddMember data uid,
         AddNotification (''New member registered: '' @ name data),
         ToastSuccess ''Member registered successfully!'', OnClose]
    \<and> length (filter (\<lambda>e. e = ToastSuccess ''Member registered successfully!'')
          (events (onSubmit env data s)))
        = Suc (length (filter (\<lambda>e. e = ToastSuccess ''Member registered successfully!'')
            (events s)))
    \<and> length (filter (\<lambda>e. e = OnClose) (events (onSubmit env data s)))
        = Suc (length (filter (\<lambda>e. e = OnClose) (events s)))"
  using assms
  by (simp add: onSubmit_def emit_def reset_def)

theorem full_success_witness:
  "form (onSubmit all_ok alice (open_dialog alice)) = defaultValues
   \<and> events (onSubmit all_ok alice (open_dialog alice)) =
       [CreateUser ''alice@example.com'' ''secret1'', AddMember alice ''uid-1'',
        AddNotification ''New member registered: Alice'',
        ToastSuccess ''Member registered successfully!'', OnClose]"
  using full_success_resets_closes_and_toasts_once
    [of all_ok "''uid-1''" "()" "()" alice "open_dialog alice"]
  by (simp add: all_ok_def open_dialog_def alice_def)

section \<open>Properties of the gallery\<close>

subsection \<open>Index arithmetic and the concrete galleries\<close>

lemma findIndex_distinct:
  "distinct (map f xs) \<Longrightarrow> i < length xs \<Longrightarrow> findIndex (\<lambda>v. f v = f (xs ! i)) xs = int i"
proof (induction xs arbitrary: i)
  case Nil
  then show ?case by simp
next
  case (Cons x xs)
  show ?case
  proof (cases i)
    case 0
    then show ?thesis by simp
  next
    case (Suc j)
    with Cons.prems have j: "j < length xs" and d: "distinct (map f xs)" and nx: "f x \<notin> f ` set xs"
      by auto
    from j nx have "f x \<noteq> f (xs ! j)" by (metis imageI nth_mem)
    with Cons.IH[OF d j] Suc show ?thesis by simp
  qed
qed

lemma js_rem_nonneg: "0 \<le> a \<Longrightarrow> 0 < b \<Longrightarrow> js_rem a b = Some (a mod b)"
  by (cases "a = 0") (simp_all add: js_rem_def sgn_if)

lemma js_rem_next: "0 < n \<Longrightarrow> js_rem (int i + 1) (int n) = Some (int ((i + 1) mod n))"
proof -
  assume n: "0 < n"
  have "js_rem (int i + 1) (int n) = Some ((int i + 1) mod int n)"
    by (rule js_rem_nonneg) (use n in simp_all)
  moreover have "(int i + 1) mod int n = int ((i + 1) mod n)"
    by (simp add: zmod_int add.commute)
  ultimately show ?thesis by simp
qed

lemma js_rem_prev: "0 < n \<Longrightarrow> js_rem (int i - 1 + int n) (int n) = Some (int ((i + n - 1) mod n))"
proof -
  assume n: "0 < n"
  then have e: "int i - 1 + int n = int (i + n - 1)" by (simp add: of_nat_diff)
  have "js_rem (int (i + n - 1)) (int n) = Some (int (i + n - 1) mod int n)"
    using n js_rem_nonneg [of "int (i + n - 1)" "int n"] by simp
  with e show ?thesis by (simp only: zmod_int)
qed

lemma array_at_nat: "k < length xs \<Longrightarrow> array_at xs (Some (int k)) = Some (xs ! k)"
  by (simp add: array_at_def)

lemma groupVideos_demo: "groupVideos demo_videos = Inr demo_groups"
  by (simp add: groupVideos_def demo_videos_def mk_video_def category_or_default_def
      objectPrototypeKeys_def fun_upd_twist demo_groups_def)

lemma fetch_demo:
  "fetchVideos (Inr demo_videos) s =
     perform (SetLoading False)
       (store_fetched demo_groups demo_videos (perform GetDocs (perform (SetLoading True) s)))"
  by (simp add: fetchVideos_def groupVideos_demo)

lemma demo_gallery_videos:
  "videos (demo_gallery api) ''cardio'' =
     Some [mk_video ''a'' (Some ''cardio''), mk_video ''c'' (Some ''cardio''),
           mk_video ''e'' (Some ''cardio'')]"
  "videos (demo_gallery api) ''uncategorized'' = Some [mk_video ''b'' None]"
  "videos (demo_gallery api) ''yoga'' = Some [mk_video ''d'' (Some ''yoga'')]"
  unfolding demo_gallery_def step.simps(1) fetch_demo
  by (simp_all add: attach_all_def store_fetched_def perform_def demo_videos_def mk_video_def
      demo_groups_def)

lemma demo_gallery_refs:
  "videoRefs (demo_gallery api) ''a'' = Some (fresh_element api)"
  "videoRefs (demo_gallery api) ''b'' = Some (fresh_element api)"
  "videoRefs (demo_gallery api) ''c'' = Some (fresh_element api)"
  "videoRefs (demo_gallery api) ''d'' = Some (fresh_element api)"
  "videoRefs (demo_gallery api) ''e'' = Some (fresh_element api)"
  by (simp_all add: demo_gallery_def attach_all_def demo_videos_def mk_video_def)

lemma demo_gallery_session:
  "currentFullScreenVideo (demo_gallery api) = None"
  "currentCategory (demo_gallery api) = None"
  "fullscreenElement (demo_gallery api) = None"
  "isFullScreen (demo_gallery api) = False"
  "isSmallScreen (demo_gallery api) = False"
  unfolding demo_gallery_def step.simps(1) fetch_demo
  by (simp_all add: attach_all_def store_fetched_def perform_def demo_videos_def
      initial_gallery_def)

lemma demo_gallery_muted:
  "muted (demo_gallery api) ''c'' = Some True"
  "volume (demo_gallery api) ''c'' = Some (7 / 10)"
  unfolding demo_gallery_def step.simps(1) fetch_demo
  by (simp_all add: attach_all_def store_fetched_def perform_def demo_videos_def
      initialState_def mk_video_def)

lemma demo_gallery_muted_all:
  "muted (demo_gallery api) ''a'' = Some True"
  "muted (demo_gallery api) ''c'' = Some True"
  "muted (demo_gallery api) ''e'' = Some True"
  unfolding demo_gallery_def step.simps(1) fetch_demo
  by (simp_all add: attach_all_def store_fetched_def perform_def demo_videos_def
      initialState_def mk_video_def)

lemma demo_gallery_effects:
  "effects (demo_gallery api) =
     [SetLoading True, GetDocs, SetWorkouts demo_groups, SetLoading False]"
  unfolding demo_gallery_def step.simps(1) fetch_demo
  by (simp add: attach_all_def store_fetched_def perform_def demo_videos_def
      initial_gallery_def)

lemma theater_active:
  "active_session theater \<lparr>fs_id = ''a'', fs_category = ''cardio''\<rparr>
     [mk_video ''a'' (Some ''cardio''), mk_video ''c'' (Some ''cardio''),
      mk_video ''e'' (Some ''cardio'')] 0"
  by (simp add: active_session_def theater_def handleFullScreen_def demo_gallery_refs
      demo_gallery_videos perform_def mk_video_def fresh_element_def Let_def)

lemma theater_session:
  "currentFullScreenVideo theater = Some \<lparr>fs_id = ''a'', fs_category = ''cardio''\<rparr>"
  "currentCategory theater = Some ''cardio''"
  "isFullScreen theater = True"
  by (simp_all add: theater_def handleFullScreen_def demo_gallery_refs perform_def Let_def)

lemma yoga_theater_state:
  "currentFullScreenVideo yoga_theater = Some \<lparr>fs_id = ''d'', fs_category = ''yoga''\<rparr>"
  "currentCategory yoga_theater = Some ''yoga''"
  "videos yoga_theater ''yoga'' = Some [mk_video ''d'' (Some ''yoga'')]"
  "videoRefs yoga_theater ''d'' = Some (fresh_element StandardApi\<lparr>el_muted := False\<rparr>)"
  by (simp_all add: yoga_theater_def handleFullScreen_def demo_gallery_refs demo_gallery_videos
      perform_def Let_def)

lemma quiet_state:
  "volume quiet ''c'' = Some 0" "muted quiet ''c'' = Some False"
  "videoRefs quiet ''c'' = Some (fresh_element StandardApi\<lparr>el_muted := False, el_volume := 0\<rparr>)"
  by (simp_all add: quiet_def handleVolumeChange_def handleMuteToggle_def demo_gallery_refs
      demo_gallery_muted truthy_def)

lemma groupVideos_bad:
  "groupVideos bad_videos = Inl (TypeError ''acc[category].push is not a function'')"
  by (simp add: groupVideos_def bad_videos_def mk_video_def category_or_default_def
      objectPrototypeKeys_def)

subsection \<open>Playlist navigation\<close>

lemma switch_video_mounted:
  assumes "videoRefs s (fs_id cur) = Some el_out" and "videoRefs s (vid nv) = Some el_in"
  shows "switch_video cur cat (Some nv) s =
    Returned (s\<lparr>playing := (playing s)(fs_id cur \<mapsto> False, vid nv \<mapsto> True),
                currentFullScreenVideo := Some \<lparr>fs_id = vid nv, fs_category = cat\<rparr>,
                videoRefs := (videoRefs s)(vid nv \<mapsto> el_in\<lparr>currentTime := 0, el_muted := False\<rparr>),
                effects := effects s @ [Pause (fs_id cur), Play (vid nv)]\<rparr>)"
  using assms by (simp add: switch_video_def perform_def)

lemma active_session_refs:
  assumes "active_session s cur vs i" and "k < length vs"
  shows "\<exists>el. videoRefs s (vid (vs ! k)) = Some el"
  using assms by (auto simp: active_session_def list_all_length)

lemma handleNextVideo_active:
  assumes "active_session s cur vs i"
  shows "handleNextVideo s =
    switch_video cur (fs_category cur) (Some (vs ! ((i + 1) mod length vs))) s"
proof -
  from assms have i: "i < length vs" and d: "distinct (map vid vs)" and c: "vid (vs ! i) = fs_id cur"
    by (simp_all add: active_session_def)
  have idx: "findIndex (\<lambda>v. vid v = fs_id cur) vs = int i"
    using findIndex_distinct [OF d i] c by simp
  have n: "0 < length vs" using i by auto
  have "array_at vs (js_rem (int i + 1) (int (length vs))) = Some (vs ! ((i + 1) mod length vs))"
    using n by (simp add: js_rem_next array_at_nat)
  with assms idx show ?thesis
    by (simp add: handleNextVideo_def active_session_def)
qed

lemma handlePreviousVideo_active:
  assumes "active_session s cur vs i"
  shows "handlePreviousVideo s =
    switch_video cur (fs_category cur) (Some (vs ! ((i + length vs - 1) mod length vs))) s"
proof -
  from assms have i: "i < length vs" and d: "distinct (map vid vs)" and c: "vid (vs ! i) = fs_id cur"
    by (simp_all add: active_session_def)
  have idx: "findIndex (\<lambda>v. vid v = fs_id cur) vs = int i"
    using findIndex_distinct [OF d i] c by simp
  have n: "0 < length vs" using i by auto
  have "array_at vs (js_rem (int i - 1 + int (length vs)) (int (length vs)))
      = Some (vs ! ((i + length vs - 1) mod length vs))"
    using n by (simp add: js_rem_prev array_at_nat)
  with assms idx show ?thesis
    by (simp add: handlePreviousVideo_def active_session_def)
qed

lemma switch_video_facts:
  assumes "videoRefs s (fs_id cur) = Some el_out" and "videoRefs s (vid nv) = Some el_in"
  shows "has_returned (switch_video cur cat (Some nv) s)"
    and "effects (state_of (switch_video cur cat (Some nv) s)) = effects s @ [Pause (fs_id cur), Play (vid nv)]"
    and "currentFullScreenVideo (state_of (switch_video cur cat (Some nv) s)) = Some \<lparr>fs_id = vid nv, fs_category = cat\<rparr>"
    and "playing (state_of (switch_video cur cat (Some nv) s)) (fs_id cur) = Some (vid nv = fs_id cur)"
    and "playing (state_of (switch_video cur cat (Some nv) s)) (vid nv) = Some True"
    and "map_option currentTime (videoRefs (state_of (switch_video cur cat (Some nv) s)) (vid nv)) = Some 0"
    and "map_option el_muted (videoRefs (state_of (switch_video cur cat (Some nv) s)) (vid nv)) = Some False"
    and "muted (state_of (switch_video cur cat (Some nv) s)) = muted s"
  by (auto simp add: switch_video_mounted [OF assms])

text \<open>
  What navigation has done by the time the handler returns. In an active fullscreen
  session (the active video is at position \<open>i\<close> of
  the non-empty playlist of the active category, and the videos of the playlist have
  their elements attached), Next returns normally and: calls \<open>pause()\<close> on the
  outgoing element and then \<open>play()\<close> on the incoming one (these two calls and no
  other); makes the video at index \<open>(i + 1) mod length\<close> the active one, in the same
  category; marks the outgoing video as not playing (unless it is also the incoming
  one) and the incoming one as playing; sets the incoming element's \<open>currentTime\<close> to
  \<open>0\<close> and its \<open>muted\<close> property to false. Previous does the same towards index
  \<open>(i + length - 1) mod length\<close>.
\<close>

lemma next_previous_switch_playback:
  fixes s :: gallery and cur :: fs_video and vs :: "video list" and i :: nat
  defines "nxt \<equiv> vid (vs ! ((i + 1) mod length vs))"
    and "prv \<equiv> vid (vs ! ((i + length vs - 1) mod length vs))"
  assumes act: "active_session s cur vs i"
  shows "has_returned (handleNextVideo s)
    \<and> effects (state_of (handleNextVideo s)) = effects s @ [Pause (fs_id cur), Play nxt]
    \<and> currentFullScreenVideo (state_of (handleNextVideo s))
        = Some \<lparr>fs_id = nxt, fs_category = fs_category cur\<rparr>
    \<and> playing (state_of (handleNextVideo s)) (fs_id cur) = Some (nxt = fs_id cur)
    \<and> playing (state_of (handleNextVideo s)) nxt = Some True
    \<and> map_option currentTime (videoRefs (state_of (handleNextVideo s)) nxt) = Some 0
    \<and> map_option el_muted (videoRefs (state_of (handleNextVideo s)) nxt) = Some False
    \<and> has_returned (handlePreviousVideo s)
    \<and> effects (state_of (handlePreviousVideo s)) = effects s @ [Pause (fs_id cur), Play prv]
    \<and> currentFullScreenVideo (state_of (handlePreviousVideo s))
        = Some \<lparr>fs_id = prv, fs_category = fs_category cur\<rparr>
    \<and> playing (state_of (handlePreviousVideo s)) (fs_id cur) = Some (prv = fs_id cur)
    \<and> playing (state_of (handlePreviousVideo s)) prv = Some True
    \<and> map_option currentTime (videoRefs (state_of (handlePreviousVideo s)) prv) = Some 0
    \<and> map_option el_muted (videoRefs (state_of (handlePreviousVideo s)) prv) = Some False"
proof -
  from act have i: "i < length vs" by (simp add: active_session_def)
  then have n: "0 < length vs" by auto
  obtain el_out where out: "videoRefs s (fs_id cur) = Some el_out"
    using active_session_refs [OF act i] act by (auto simp: active_session_def)
  have "(i + 1) mod length vs < length vs" using n by simp
  then obtain el_n where eln: "videoRefs s (vid (vs ! ((i + 1) mod length vs))) = Some el_n"
    using active_session_refs [OF act] by blast
  have "(i + length vs - 1) mod length vs < length vs" using n by simp
  then obtain el_p where elp: "videoRefs s (vid (vs ! ((i + length vs - 1) mod length vs))) = Some el_p"
    using active_session_refs [OF act] by blast
  note nx = switch_video_facts [OF out eln, of "fs_category cur"]
  note pv = switch_video_facts [OF out elp, of "fs_category cur"]
  show ?thesis
    unfolding nxt_def prv_def handleNextVideo_active [OF act] handlePreviousVideo_active [OF act]
    using nx pv by simp
qed

lemma next_previous_at_theater:
  "currentFullScreenVideo (state_of (handleNextVideo theater))
     = Some \<lparr>fs_id = ''c'', fs_category = ''cardio''\<rparr>
   \<and> effects (state_of (handleNextVideo theater)) = effects theater @ [Pause ''a'', Play ''c'']
   \<and> map_option el_muted (videoRefs (state_of (handleNextVideo theater)) ''c'') = Some False
   \<and> map_option currentTime (videoRefs (state_of (handleNextVideo theater)) ''c'') = Some 0
   \<and> currentFullScreenVideo (state_of (handlePreviousVideo theater))
     = Some \<lparr>fs_id = ''e'', fs_category = ''cardio''\<rparr>
   \<and> effects (state_of (handlePreviousVideo theater)) = effects theater @ [Pause ''a'', Play ''e'']"
  using next_previous_switch_playback [OF theater_active]
  by (simp add: mk_video_def)

text \<open>
  The unmuting above is the assignment to the element found under the incoming id. The
  \<open>muted\<close> table of the component is not written by navigation (the enter control
  and the volume handler write both the element and the table).
\<close>

lemma navigation_keeps_muted_state:
  assumes "active_session s cur vs i"
  shows "muted (state_of (handleNextVideo s)) = muted s"
    and "muted (state_of (handlePreviousVideo s)) = muted s"
proof -
  from assms have i: "i < length vs" by (simp add: active_session_def)
  then have n: "0 < length vs" by auto
  obtain el_out where out: "videoRefs s (fs_id cur) = Some el_out"
    using active_session_refs [OF assms i] assms by (auto simp: active_session_def)
  have "(i + 1) mod length vs < length vs" using n by simp
  then obtain el_n where eln: "videoRefs s (vid (vs ! ((i + 1) mod length vs))) = Some el_n"
    using active_session_refs [OF assms] by blast
  have "(i + length vs - 1) mod length vs < length vs" using n by simp
  then obtain el_p where elp: "videoRefs s (vid (vs ! ((i + length vs - 1) mod length vs))) = Some el_p"
    using active_session_refs [OF assms] by blast
  show "muted (state_of (handleNextVideo s)) = muted s"
    unfolding handleNextVideo_active [OF assms] by (rule switch_video_facts(8) [OF out eln])
  show "muted (state_of (handlePreviousVideo s)) = muted s"
    unfolding handlePreviousVideo_active [OF assms] by (rule switch_video_facts(8) [OF out elp])
qed

lemma theater_muted:
  "muted theater ''a'' = Some False" "muted theater ''c'' = Some True"
  "muted theater ''e'' = Some True"
  by (simp_all add: theater_def handleFullScreen_def demo_gallery_refs demo_gallery_muted_all
      perform_def Let_def)

text \<open>
  Claim C2 says that Next and Previous unmute the incoming video. They do not: entering
  the session on video \<open>a\<close> leaves the overlay player unmuted, but after Next the
  incoming video \<open>c\<close> is still muted in the component's state, so the overlay
  player, now showing \<open>c\<close>, is rendered muted and the volume control shows the muted
  icon; likewise after Previous for the incoming video \<open>e\<close>. Only the element that
  was found under the incoming id when the handler ran had its \<open>muted\<close> property
  cleared.
\<close>

theorem navigation_leaves_incoming_video_muted:
  "overlay_muted_prop theater = Some False
   \<and> currentFullScreenVideo (state_of (handleNextVideo theater))
       = Some \<lparr>fs_id = ''c'', fs_category = ''cardio''\<rparr>
   \<and> muted (state_of (handleNextVideo theater)) ''c'' = Some True
   \<and> overlay_muted_prop (state_of (handleNextVideo theater)) = Some True
   \<and> mutedIndicator (state_of (handleNextVideo theater)) ''c''
   \<and> currentFullScreenVideo (state_of (handlePreviousVideo theater))
       = Some \<lparr>fs_id = ''e'', fs_category = ''cardio''\<rparr>
   \<and> muted (state_of (handlePreviousVideo theater)) ''e'' = Some True
   \<and> overlay_muted_prop (state_of (handlePreviousVideo theater)) = Some True
   \<and> mutedIndicator (state_of (handlePreviousVideo theater)) ''e''"
  using next_previous_switch_playback [OF theater_active]
    navigation_keeps_muted_state [OF theater_active]
  by (simp add: overlay_muted_prop_def mutedIndicator_def truthy_def theater_muted
      theater_session mk_video_def)

text \<open>When the incoming video has no element attached, navigation still switches the
  session but rewinds, unmutes and plays nothing.\<close>

lemma navigation_skips_detached_target:
  "effects (state_of (handleNextVideo (step (RefAttached ''c'' None) theater)))
     = effects theater @ [Pause ''a'']
   \<and> currentFullScreenVideo (state_of (handleNextVideo (step (RefAttached ''c'' None) theater)))
     = Some \<lparr>fs_id = ''c'', fs_category = ''cardio''\<rparr>"
  by (simp add: handleNextVideo_def switch_video_def theater_def handleFullScreen_def
      demo_gallery_refs demo_gallery_videos perform_def Let_def mk_video_def js_rem_def
      array_at_def)

lemma single_next_target:
  assumes "vid v = fs_id cur"
  shows "array_at [v] (js_rem (findIndex (\<lambda>x. vid x = fs_id cur) [v] + 1) (int (length [v]))) = Some v"
  using assms by (simp add: js_rem_def array_at_def)

lemma single_previous_target:
  assumes "vid v = fs_id cur"
  shows "array_at [v] (js_rem (findIndex (\<lambda>x. vid x = fs_id cur) [v] - 1 + int (length [v]))
           (int (length [v]))) = Some v"
  using assms by (simp add: js_rem_def array_at_def)

lemma switch_video_same_id:
  assumes "currentFullScreenVideo s = Some cur" and "vid v = fs_id cur"
  shows "map_option fs_id (currentFullScreenVideo (state_of (switch_video cur cat (Some v) s)))
    = Some (fs_id cur)"
  using assms by (simp add: switch_video_def perform_def Let_def split: option.splits)

text \<open>
  Claim C7. When the active category holds exactly one video and that video is the
  active one, the active video id after Next is the same id, and so it is after
  Previous: with length 1 both index computations give index 0. This holds on every
  path of the handlers; when moreover the category name is non-empty and the element of
  the video is attached, both handlers return normally, the session is that video in
  that category, and the video is marked as playing.
\<close>

theorem single_video_navigation_is_fixed_point:
  assumes "currentFullScreenVideo s = Some cur"
    and "currentCategory s = Some cat"
    and "videos s cat = Some [v]"
    and "vid v = fs_id cur"
  shows "map_option fs_id (currentFullScreenVideo (state_of (handleNextVideo s))) = Some (fs_id cur)
    \<and> map_option fs_id (currentFullScreenVideo (state_of (handlePreviousVideo s))) = Some (fs_id cur)
    \<and> (cat \<noteq> [] \<and> videoRefs s (fs_id cur) \<noteq> None \<longrightarrow>
         has_returned (handleNextVideo s) \<and> has_returned (handlePreviousVideo s)
         \<and> currentFullScreenVideo (state_of (handleNextVideo s))
             = Some \<lparr>fs_id = fs_id cur, fs_category = cat\<rparr>
         \<and> currentFullScreenVideo (state_of (handlePreviousVideo s))
             = Some \<lparr>fs_id = fs_id cur, fs_category = cat\<rparr>
         \<and> playing (state_of (handleNextVideo s)) (fs_id cur) = Some True
         \<and> playing (state_of (handlePreviousVideo s)) (fs_id cur) = Some True)"
proof -
  have nxt: "handleNextVideo s =
      (if cat = [] then Returned s else switch_video cur cat (Some v) s)"
    using assms single_next_target [OF assms(4)]
    by (simp add: handleNextVideo_def Let_def)
  have prv: "handlePreviousVideo s =
      (if cat = [] then Returned s else switch_video cur cat (Some v) s)"
    using assms single_previous_target [OF assms(4)]
    by (simp add: handlePreviousVideo_def Let_def)
  have same: "map_option fs_id (currentFullScreenVideo
      (state_of (if cat = [] then Returned s else switch_video cur cat (Some v) s))) = Some (fs_id cur)"
    using switch_video_same_id [OF assms(1) assms(4)] assms(1) by simp
  have mounted: "cat \<noteq> [] \<and> videoRefs s (fs_id cur) \<noteq> None \<longrightarrow>
      has_returned (switch_video cur cat (Some v) s)
      \<and> currentFullScreenVideo (state_of (switch_video cur cat (Some v) s))
          = Some \<lparr>fs_id = fs_id cur, fs_category = cat\<rparr>
      \<and> playing (state_of (switch_video cur cat (Some v) s)) (fs_id cur) = Some True"
    using assms(4) by (auto simp: switch_video_def perform_def Let_def)
  show ?thesis
    unfolding nxt prv using same mounted by simp
qed

theorem single_video_witness:
  "currentFullScreenVideo (state_of (handleNextVideo yoga_theater))
     = Some \<lparr>fs_id = ''d'', fs_category = ''yoga''\<rparr>
   \<and> currentFullScreenVideo (state_of (handlePreviousVideo yoga_theater))
     = Some \<lparr>fs_id = ''d'', fs_category = ''yoga''\<rparr>
   \<and> has_returned (handleNextVideo yoga_theater) \<and> has_returned (handlePreviousVideo yoga_theater)"
  using single_video_navigation_is_fixed_point
    [of yoga_theater "\<lparr>fs_id = ''d'', fs_category = ''yoga''\<rparr>" "''yoga''" "mk_video ''d'' (Some ''yoga'')"]
  by (simp add: yoga_theater_state mk_video_def)

subsection \<open>Grouping and the fetch\<close>

lemma merged_new_group:
  assumes "acc (category_or_default v) = None"
  shows "merged (acc(category_or_default v \<mapsto> [v])) rest = merged acc (v # rest)"
proof (rule ext)
  fix c
  show "merged (acc(category_or_default v \<mapsto> [v])) rest c = merged acc (v # rest) c"
    using assms by (cases "c = category_or_default v") (auto simp: merged_def split: option.splits)
qed

lemma merged_old_group:
  assumes "acc (category_or_default v) = Some grp"
  shows "merged (acc(category_or_default v \<mapsto> grp @ [v])) rest = merged acc (v # rest)"
proof (rule ext)
  fix c
  show "merged (acc(category_or_default v \<mapsto> grp @ [v])) rest c = merged acc (v # rest) c"
    using assms by (cases "c = category_or_default v") (auto simp: merged_def split: option.splits)
qed

lemma group_reduce_stable:
  assumes "list_all (\<lambda>v. category_or_default v \<notin> set objectPrototypeKeys) vs"
  shows "group_reduce acc vs = Inr (merged acc vs)"
  using assms
proof (induction vs arbitrary: acc)
  case Nil
  have "merged acc [] = acc"
    by (rule ext) (simp add: merged_def split: option.splits)
  then show ?case by simp
next
  case (Cons v rest)
  then have rest: "list_all (\<lambda>v. category_or_default v \<notin> set objectPrototypeKeys) rest"
    and ok: "category_or_default v \<notin> set objectPrototypeKeys"
    by simp_all
  show ?case
  proof (cases "acc (category_or_default v)")
    case None
    have "group_reduce acc (v # rest) = group_reduce (acc(category_or_default v \<mapsto> [v])) rest"
      using None ok by simp
    also have "\<dots> = Inr (merged (acc(category_or_default v \<mapsto> [v])) rest)"
      by (rule Cons.IH [OF rest])
    also have "\<dots> = Inr (merged acc (v # rest))"
      using merged_new_group [of acc v rest] None by simp
    finally show ?thesis .
  next
    case (Some grp)
    have "group_reduce acc (v # rest) =
        group_reduce (acc(category_or_default v \<mapsto> grp @ [v])) rest"
      using Some by simp
    also have "\<dots> = Inr (merged (acc(category_or_default v \<mapsto> grp @ [v])) rest)"
      by (rule Cons.IH [OF rest])
    also have "\<dots> = Inr (merged acc (v # rest))"
      using merged_old_group [of acc v grp rest] Some by simp
    finally show ?thesis .
  qed
qed

text \<open>
  Grouping is stable on every fetched list none of whose category names is inherited
  from \<open>Object.prototype\<close>: the group of a name is the list of the records of that
  name (records without a category under \<open>uncategorized\<close>), in fetch order, and the
  names with a group are exactly the names that occur.
\<close>

lemma groupVideos_stable:
  assumes "list_all (\<lambda>v. category_or_default v \<notin> set objectPrototypeKeys) vs"
  shows "groupVideos vs =
    Inr (\<lambda>c. if filter (\<lambda>v. category_or_default v = c) vs = [] then None
             else Some (filter (\<lambda>v. category_or_default v = c) vs))"
  unfolding groupVideos_def group_reduce_stable [OF assms]
  by (simp add: merged_def fun_eq_iff)

text \<open>
  Claim C3 asks for stable grouping of every fetched list. On a list with a record whose
  category is \<open>constructor\<close> the grouping throws instead: the lookup finds the
  inherited function, no group is created, and \<open>push\<close> is not a function. The
  fetch catches the error, so no record of the list (not even the well-named one before
  it) is grouped, stored or reported.
\<close>

theorem grouping_throws_on_inherited_category_name:
  "groupVideos bad_videos = Inl (TypeError ''acc[category].push is not a function'')
   \<and> videos (fetchVideos (Inr bad_videos) initial_gallery) = Map.empty
   \<and> effects (fetchVideos (Inr bad_videos) initial_gallery) =
       [SetLoading True, GetDocs, ConsoleError ''Error fetching videos:'', SetLoading False]"
  by (simp add: fetchVideos_def groupVideos_bad perform_def initial_gallery_def)

text \<open>
  Claim C10. Every run of the fetch calls \<open>setLoading(true)\<close>, then reads the
  collection, and calls \<open>setLoading(false)\<close> last; these are its only \<open>setLoading\<close>
  calls. When the read fails (or the grouping throws) the only thing in between is the
  console message: \<open>setWorkouts\<close> is not called and the grouped videos are what they
  were, which is the empty object for the initial fetch. When the read and the grouping
  succeed, \<open>setWorkouts\<close> is called once, with the grouping, in between.
\<close>

theorem fetch_brackets_loading_and_failure_reports_nothing:
  "effects (fetchVideos (Inl e) s) =
     effects s @ [SetLoading True, GetDocs, ConsoleError ''Error fetching videos:'', SetLoading False]
   \<and> videos (fetchVideos (Inl e) s) = videos s
   \<and> videos (fetchVideos (Inl e) initial_gallery) = Map.empty
   \<and> (groupVideos fetched = Inr grouped \<longrightarrow>
        effects (fetchVideos (Inr fetched) s) =
          effects s @ [SetLoading True, GetDocs, SetWorkouts grouped, SetLoading False]
        \<and> videos (fetchVideos (Inr fetched) s) = grouped)
   \<and> (groupVideos fetched = Inl e' \<longrightarrow>
        effects (fetchVideos (Inr fetched) s) =
          effects s @ [SetLoading True, GetDocs, ConsoleError ''Error fetching videos:'',
                       SetLoading False]
        \<and> videos (fetchVideos (Inr fetched) s) = videos s)"
  by (simp add: fetchVideos_def store_fetched_def perform_def Let_def initial_gallery_def)

theorem fetch_witness:
  "effects (fetchVideos (Inr demo_videos) initial_gallery) =
     [SetLoading True, GetDocs, SetWorkouts demo_groups, SetLoading False]
   \<and> videos (fetchVideos (Inr demo_videos) initial_gallery) = demo_groups
   \<and> effects (fetchVideos (Inr bad_videos) initial_gallery) =
     [SetLoading True, GetDocs, ConsoleError ''Error fetching videos:'', SetLoading False]
   \<and> videos (fetchVideos (Inr bad_videos) initial_gallery) = Map.empty
   \<and> effects (fetchVideos (Inl store_unavailable) initial_gallery) =
     [SetLoading True, GetDocs, ConsoleError ''Error fetching videos:'', SetLoading False]"
  using fetch_brackets_loading_and_failure_reports_nothing
      [of store_unavailable initial_gallery demo_videos demo_groups]
    fetch_brackets_loading_and_failure_reports_nothing
      [of store_unavailable initial_gallery bad_videos _
          "TypeError ''acc[category].push is not a function''"]
  by (simp add: groupVideos_demo groupVideos_bad initial_gallery_def)

subsection \<open>The volume control\<close>

lemma mute_toggle_flips_slider:
  assumes "videoRefs s videoId = Some el"
  shows "sliderShown (handleMuteToggle videoId s) videoId = (\<not> sliderShown s videoId)"
  using assms by (simp add: sliderShown_def handleMuteToggle_def truthy_def)

text \<open>
  Claim C4, as the code has it. For a video whose volume is 0, the muted indicator
  (\<open>muted || volume === 0\<close>) is shown before the mute toggle and is shown after it,
  and the volume is still 0: the toggle does not change the indicator. The slider of the
  same control is rendered on \<open>!muted\<close> alone, so the toggle shows or hides it
  (when the video has its element attached; otherwise the toggle does nothing).
\<close>

theorem mute_toggle_keeps_indicator_at_zero_volume:
  assumes "volume s videoId = Some 0"
  shows "mutedIndicator s videoId
    \<and> mutedIndicator (handleMuteToggle videoId s) videoId
    \<and> volume (handleMuteToggle videoId s) videoId = Some 0
    \<and> (videoRefs s videoId \<noteq> None \<longrightarrow>
         sliderShown (handleMuteToggle videoId s) videoId = (\<not> sliderShown s videoId))
    \<and> (videoRefs s videoId = None \<longrightarrow> handleMuteToggle videoId s = s)"
proof -
  have indicator: "mutedIndicator s videoId \<and> mutedIndicator (handleMuteToggle videoId s) videoId
      \<and> volume (handleMuteToggle videoId s) videoId = Some 0"
    using assms by (simp add: mutedIndicator_def handleMuteToggle_def split: option.splits)
  have slider: "videoRefs s videoId \<noteq> None \<longrightarrow>
      sliderShown (handleMuteToggle videoId s) videoId = (\<not> sliderShown s videoId)"
    using mute_toggle_flips_slider by blast
  have detached: "videoRefs s videoId = None \<longrightarrow> handleMuteToggle videoId s = s"
    by (simp add: handleMuteToggle_def)
  from indicator slider detached show ?thesis by blast
qed

theorem mute_toggle_witness:
  "mutedIndicator quiet ''c'' \<and> mutedIndicator (handleMuteToggle ''c'' quiet) ''c''
   \<and> muted quiet ''c'' = Some False \<and> muted (handleMuteToggle ''c'' quiet) ''c'' = Some True
   \<and> sliderShown quiet ''c'' \<and> \<not> sliderShown (handleMuteToggle ''c'' quiet) ''c''"
  using mute_toggle_keeps_indicator_at_zero_volume [of quiet "''c''"]
  by (simp add: quiet_state handleMuteToggle_def truthy_def sliderShown_def)

text \<open>
  Claim C4 as stated says the toggle does not change the displayed control state at
  volume 0. After unmuting a card and dragging its slider to 0, the control shows the
  muted icon with the slider; the toggle leaves the icon and removes the slider.
\<close>

theorem mute_toggle_changes_displayed_control:
  "volume quiet ''c'' = Some 0
   \<and> displayed_control quiet ''c'' = (True, True)
   \<and> displayed_control (handleMuteToggle ''c'' quiet) ''c'' = (True, False)
   \<and> displayed_control (handleMuteToggle ''c'' quiet) ''c'' \<noteq> displayed_control quiet ''c''"
  by (simp add: displayed_control_def mutedIndicator_def sliderShown_def quiet_state
      handleMuteToggle_def truthy_def)

subsection \<open>The fullscreen session\<close>

lemma fetchVideos_session:
  "currentFullScreenVideo (fetchVideos r s) = currentFullScreenVideo s"
  by (simp add: fetchVideos_def store_fetched_def perform_def Let_def split: sum.splits)

lemma step_keeps_no_session:
  assumes "\<not> is_enter ev" and "currentFullScreenVideo s = None"
  shows "currentFullScreenVideo (step ev s) = None"
proof (cases ev)
  case (Fetched r)
  then show ?thesis using assms(2) by (simp add: fetchVideos_session)
next
  case (ClickFullScreen videoId cat)
  then show ?thesis using assms(1) by simp
qed (use assms(2) in \<open>simp_all add: handleVideoLoaded_def handlePlayPause_def handleMuteToggle_def
    handleVolumeChange_def handleExitFullScreen_def clear_session_def handleToggleSmallScreen_def
    handleNextVideo_def handlePreviousVideo_def browserFullscreenChange_def
    handleFullscreenChange_def perform_def split: option.splits\<close>)

text \<open>
  Claim C5, as the code has it. The session becomes non-null only through the enter
  control, which sets it as soon as it is invoked on an attached element, without
  waiting for the browser to enter fullscreen (the browser's fullscreen element is what
  it was); no other event turns a null session into a non-null one. Whenever the browser
  reports a fullscreen change with no fullscreen element (an exit, whoever initiated
  it), the session is null afterwards, and if it was non-null all four session fields
  are reset.
\<close>

theorem session_set_by_enter_cleared_on_reported_exit:
  "(videoRefs s videoId \<noteq> None \<longrightarrow>
      currentFullScreenVideo (handleFullScreen videoId cat s)
        = Some \<lparr>fs_id = videoId, fs_category = cat\<rparr>
      \<and> currentCategory (handleFullScreen videoId cat s) = Some cat
      \<and> fullscreenElement (handleFullScreen videoId cat s) = fullscreenElement s)
   \<and> (\<not> is_enter ev \<and> currentFullScreenVideo s = None \<longrightarrow>
        currentFullScreenVideo (step ev s) = None)
   \<and> currentFullScreenVideo (browserFullscreenChange None s) = None
   \<and> (currentFullScreenVideo s \<noteq> None \<longrightarrow>
        session_fields (browserFullscreenChange None s) = (None, None, False, False))"
proof -
  have enter: "videoRefs s videoId \<noteq> None \<longrightarrow>
      currentFullScreenVideo (handleFullScreen videoId cat s)
        = Some \<lparr>fs_id = videoId, fs_category = cat\<rparr>
      \<and> currentCategory (handleFullScreen videoId cat s) = Some cat
      \<and> fullscreenElement (handleFullScreen videoId cat s) = fullscreenElement s"
    by (auto simp: handleFullScreen_def perform_def Let_def)
  have only: "\<not> is_enter ev \<and> currentFullScreenVideo s = None \<longrightarrow>
        currentFullScreenVideo (step ev s) = None"
    using step_keeps_no_session by blast
  have forced: "currentFullScreenVideo (browserFullscreenChange None s) = None"
    by (simp add: browserFullscreenChange_def handleFullscreenChange_def clear_session_def)
  have fields: "currentFullScreenVideo s \<noteq> None \<longrightarrow>
        session_fields (browserFullscreenChange None s) = (None, None, False, False)"
    by (simp add: browserFullscreenChange_def handleFullscreenChange_def clear_session_def
        session_fields_def)
  from enter only forced fields show ?thesis by blast
qed

theorem session_lifecycle_witness:
  "currentFullScreenVideo (handleFullScreen ''a'' ''cardio'' (demo_gallery StandardApi))
     = Some \<lparr>fs_id = ''a'', fs_category = ''cardio''\<rparr>
   \<and> currentFullScreenVideo (step ClickNext (demo_gallery StandardApi)) = None
   \<and> session_fields (browserFullscreenChange None theater) = (None, None, False, False)"
  using session_set_by_enter_cleared_on_reported_exit
      [of "demo_gallery StandardApi" "''a''" "''cardio''" ClickNext]
    session_set_by_enter_cleared_on_reported_exit [of theater "''a''" "''cardio''" ClickNext]
  by (simp add: demo_gallery_refs demo_gallery_session theater_session)

text \<open>
  Claim C5 as stated requires the session to be non-null only while the browser is in
  fullscreen. When the enter control returns, the session is set and the browser has no
  fullscreen element: the request has only been issued, and on elements that offer no
  fullscreen entry point no request is issued at all.
\<close>

theorem session_without_browser_fullscreen:
  "currentFullScreenVideo (handleFullScreen ''a'' ''cardio'' (demo_gallery StandardApi))
     = Some \<lparr>fs_id = ''a'', fs_category = ''cardio''\<rparr>
   \<and> currentCategory (handleFullScreen ''a'' ''cardio'' (demo_gallery StandardApi)) = Some ''cardio''
   \<and> fullscreenElement (handleFullScreen ''a'' ''cardio'' (demo_gallery StandardApi)) = None
   \<and> effects (handleFullScreen ''a'' ''cardio'' (demo_gallery StandardApi))
     = effects (demo_gallery StandardApi) @ [RequestFullscreen ''a'' StandardApi, Play ''a'']
   \<and> currentFullScreenVideo (handleFullScreen ''a'' ''cardio'' (demo_gallery NoApi))
     = Some \<lparr>fs_id = ''a'', fs_category = ''cardio''\<rparr>
   \<and> currentCategory (handleFullScreen ''a'' ''cardio'' (demo_gallery NoApi)) = Some ''cardio''
   \<and> fullscreenElement (handleFullScreen ''a'' ''cardio'' (demo_gallery NoApi)) = None
   \<and> effects (handleFullScreen ''a'' ''cardio'' (demo_gallery NoApi))
     = effects (demo_gallery NoApi) @ [Play ''a'']"
  by (simp add: handleFullScreen_def demo_gallery_refs demo_gallery_session fresh_element_def
      perform_def)

text \<open>
  Claim C6. From a state with an active session, a fullscreen exit reported by the
  browser leaves the four session fields (active video, active category, fullscreen
  flag, compact flag) exactly as the exit control leaves them: all cleared.
\<close>

theorem native_exit_equals_exit_control:
  assumes "currentFullScreenVideo s \<noteq> None"
  shows "session_fields (browserFullscreenChange None s) = session_fields (handleExitFullScreen s)
    \<and> session_fields (handleExitFullScreen s) = (None, None, False, False)"
  using assms
  by (simp add: browserFullscreenChange_def handleFullscreenChange_def handleExitFullScreen_def
      clear_session_def session_fields_def perform_def)

theorem native_exit_witness:
  "session_fields theater = (Some \<lparr>fs_id = ''a'', fs_category = ''cardio''\<rparr>, Some ''cardio'', True, False)
   \<and> session_fields (browserFullscreenChange None theater) = session_fields (handleExitFullScreen theater)
   \<and> session_fields (handleExitFullScreen theater) = (None, None, False, False)"
proof -
  have "isSmallScreen theater = False"
    by (simp add: theater_def handleFullScreen_def demo_gallery_refs perform_def Let_def)
  then show ?thesis
    using native_exit_equals_exit_control [of theater]
    by (simp add: theater_session session_fields_def)
qed

end
